theory Spec2Isabelle
  imports Complex_Main "HOL-Library.Sublist" "HOL-Library.Multiset"
begin

chapter \<open>PortRecon: the resumable probing pipeline\<close>

text \<open>
  A shallow embedding of the three scripts of the repository: the port scanner
  (\<^verbatim>\<open>scanner.py\<close>), the liveness checker (\<^verbatim>\<open>2.ollama-checker.py\<close>) and the model
  lister (\<^verbatim>\<open>ollama-model-list.py\<close>). Python exceptions are values of \<open>py_exn\<close>, files
  are explicit components of a disk record, and everything the scripts learn from the
  network is a parameter of the model.
\<close>

section \<open>Python strings and integers\<close>

datatype py_exn =
    ValueError
  | IndexError
  | KeyError string
  | ZeroDivisionError
  | FileNotFoundError string
  | JSONDecodeError
  | AttributeError
  | TypeError
  | PortScannerError
  | RequestException string
  | HTTPError string
  | InvalidJSON string
  | SystemExit string

text \<open>\<^verbatim>\<open>s.split(sep)\<close> for a one-character separator: every occurrence cuts, and the
  empty string splits into one empty field.\<close>

fun py_split :: "char \<Rightarrow> string \<Rightarrow> string list" where
  "py_split c [] = [[]]"
| "py_split c (x # xs) =
     (if x = c then [] # py_split c xs
      else (case py_split c xs of
              w # ws \<Rightarrow> (x # w) # ws
            | [] \<Rightarrow> [[x]]))"

text \<open>\<^verbatim>\<open>sep.join(parts)\<close>.\<close>

fun py_join :: "string \<Rightarrow> string list \<Rightarrow> string" where
  "py_join sep [] = []"
| "py_join sep [p] = p"
| "py_join sep (p # q # ps) = p @ sep @ py_join sep (q # ps)"

text \<open>The ASCII characters \<^verbatim>\<open>str.strip()\<close> removes (tab, line feed, vertical tab, form
  feed, carriage return, the four separators 0x1C to 0x1F, and the space).\<close>

definition is_space :: "char \<Rightarrow> bool" where
  "is_space c = (c \<in> set [CHR 0x09, CHR 0x0A, CHR 0x0B, CHR 0x0C, CHR 0x0D,
                           CHR 0x1C, CHR 0x1D, CHR 0x1E, CHR 0x1F, CHR '' ''])"

definition py_strip :: "string \<Rightarrow> string" where
  "py_strip s = rev (dropWhile is_space (rev (dropWhile is_space s)))"

definition is_digit :: "char \<Rightarrow> bool" where
  "is_digit c = (48 \<le> (of_char c :: nat) \<and> (of_char c :: nat) \<le> 57)"

definition digit_val :: "char \<Rightarrow> nat" where
  "digit_val c = of_char c - 48"

definition digit_char :: "nat \<Rightarrow> char" where
  "digit_char d = char_of (48 + d)"

definition digits_value :: "string \<Rightarrow> nat" where
  "digits_value ds = foldl (\<lambda>a c. 10 * a + digit_val c) 0 ds"

text \<open>\<^verbatim>\<open>str(n)\<close> for an integer: decimal digits, most significant first, no leading
  zero, a minus sign for a negative number.\<close>

function str_nat :: "nat \<Rightarrow> string" where
  "str_nat n = (if n < 10 then [digit_char n] else str_nat (n div 10) @ [digit_char (n mod 10)])"
  by pat_completeness auto
termination
  by (relation "measure id") auto

declare str_nat.simps [simp del]

definition py_str :: "int \<Rightarrow> string" where
  "py_str i = (if i < 0 then CHR ''-'' # str_nat (nat (- i)) else str_nat (nat i))"

text \<open>\<^verbatim>\<open>int(s)\<close> on a string, base ten: surrounding whitespace is stripped, one sign is
  allowed, and the digits may be grouped by single underscores; anything else raises
  \<^verbatim>\<open>ValueError\<close>. (Characters are bytes here, so digits outside ASCII are not covered.)\<close>

fun digit_groups_ok :: "string \<Rightarrow> bool" where
  "digit_groups_ok [] = False"
| "digit_groups_ok [c] = is_digit c"
| "digit_groups_ok (c # d # r) =
     (is_digit c \<and> (if d = CHR ''_'' then digit_groups_ok r else digit_groups_ok (d # r)))"

definition py_int_unsigned :: "string \<Rightarrow> py_exn + int" where
  "py_int_unsigned t =
     (if digit_groups_ok t
      then Inr (int (digits_value (filter (\<lambda>c. c \<noteq> CHR ''_'') t)))
      else Inl ValueError)"

definition py_int :: "string \<Rightarrow> py_exn + int" where
  "py_int s =
     (case py_strip s of
        [] \<Rightarrow> Inl ValueError
      | c # r \<Rightarrow>
          if c = CHR ''-'' then
            (case py_int_unsigned r of Inl x \<Rightarrow> Inl x | Inr v \<Rightarrow> Inr (- v))
          else if c = CHR ''+'' then py_int_unsigned r
          else py_int_unsigned (c # r))"

text \<open>\<^verbatim>\<open>list(map(f, xs))\<close> for an \<open>f\<close> that may raise: the first exception ends the
  traversal.\<close>

fun map_raising :: "('a \<Rightarrow> py_exn + 'b) \<Rightarrow> 'a list \<Rightarrow> py_exn + 'b list" where
  "map_raising f [] = Inr []"
| "map_raising f (x # xs) =
     (case f x of
        Inl e \<Rightarrow> Inl e
      | Inr y \<Rightarrow> (case map_raising f xs of Inl e \<Rightarrow> Inl e | Inr ys \<Rightarrow> Inr (y # ys)))"

section \<open>Scanner: target expansion\<close>

text \<open>
  \<^verbatim>\<open>
  def to_nmap_range(start, end):
      s = list(map(int, start.split('.')))
      e = list(map(int, end.split('.')))
      return f"{s[0]}-{e[0]}.{s[1]}-{e[1]}.{s[2]}-{e[2]}.{s[3]}-{e[3]}"
  \<close>
  A malformed octet raises \<^verbatim>\<open>ValueError\<close>, fewer than four octets \<^verbatim>\<open>IndexError\<close>;
  octets past the fourth are ignored.
\<close>

definition octet_range :: "int \<Rightarrow> int \<Rightarrow> string" where
  "octet_range a b = py_str a @ ''-'' @ py_str b"

definition to_nmap_range :: "string \<Rightarrow> string \<Rightarrow> py_exn + string" where
  "to_nmap_range start endp =
     (case map_raising py_int (py_split CHR ''.'' start) of
        Inl x \<Rightarrow> Inl x
      | Inr s \<Rightarrow>
          (case map_raising py_int (py_split CHR ''.'' endp) of
             Inl x \<Rightarrow> Inl x
           | Inr e \<Rightarrow>
               if 4 \<le> length s \<and> 4 \<le> length e
               then Inr (octet_range (s ! 0) (e ! 0) @ ''.'' @ octet_range (s ! 1) (e ! 1) @ ''.'' @
                         octet_range (s ! 2) (e ! 2) @ ''.'' @ octet_range (s ! 3) (e ! 3))
               else Inl IndexError))"

subsection \<open>Reading a range expression back\<close>

text \<open>
  The reference reading of the scanning engine's range syntax, independent of
  \<open>to_nmap_range\<close>: four fields separated by dots, each \<^verbatim>\<open>lo-hi\<close> with decimal bounds.
  An address is covered when each of its four octets lies in the interval of its field.
\<close>

definition parse_nat :: "string \<Rightarrow> nat option" where
  "parse_nat s = (if s \<noteq> [] \<and> list_all is_digit s then Some (digits_value s) else None)"

definition octet_interval :: "string \<Rightarrow> (nat \<times> nat) option" where
  "octet_interval field =
     (case py_split CHR ''-'' field of
        [a, b] \<Rightarrow>
          (case parse_nat a of
             None \<Rightarrow> None
           | Some lo \<Rightarrow> (case parse_nat b of None \<Rightarrow> None | Some hi \<Rightarrow> Some (lo, hi)))
      | _ \<Rightarrow> None)"

definition range_intervals :: "string \<Rightarrow> (nat \<times> nat) list option" where
  "range_intervals r =
     (let fields = py_split CHR ''.'' r
      in if length fields = 4 then those (map octet_interval fields) else None)"

definition in_interval :: "nat \<times> nat \<Rightarrow> nat \<Rightarrow> bool" where
  "in_interval iv x = (fst iv \<le> x \<and> x \<le> snd iv)"

definition range_covers :: "string \<Rightarrow> nat list \<Rightarrow> bool" where
  "range_covers r addr =
     (case range_intervals r of
        None \<Rightarrow> False
      | Some ivs \<Rightarrow> list_all2 in_interval ivs addr)"

text \<open>A dotted quad: exactly four decimal fields, each at most 255.\<close>

definition dotted_quad :: "string \<Rightarrow> nat list option" where
  "dotted_quad s =
     (let fields = py_split CHR ''.'' s
      in if length fields = 4
         then (case those (map parse_nat fields) of
                 None \<Rightarrow> None
               | Some os \<Rightarrow> if list_all (\<lambda>n. n \<le> 255) os then Some os else None)
         else None)"

section \<open>Files\<close>

text \<open>A JSON file as the scripts see it: absent, present but rejected by \<^verbatim>\<open>json.load\<close>
  (unreadable or corrupt), or holding a value.\<close>

datatype 'a json_file = NoFile | Garbage | Stored 'a


section \<open>Scanner: loading the input and the checkpoint\<close>

text \<open>
  \<^verbatim>\<open>
  try:
      with open('data.json', 'r') as file:
          data = json.load(file)
      if not data:
          sys.exit("No data found in the JSON file.")
  except:
      sys.exit("Error reading the JSON file.")
  \<close>
  \<^verbatim>\<open>sys.exit(msg)\<close> raises \<^verbatim>\<open>SystemExit(msg)\<close>; at top level the message goes to stderr and
  the exit code is 1. The bare \<^verbatim>\<open>except:\<close> also catches the \<^verbatim>\<open>SystemExit\<close> raised inside
  the \<^verbatim>\<open>try\<close>. The result is the data, or the message and the code the process exits
  with.
\<close>

type_synonym item = "(string \<times> string) list"



text \<open>
  \<^verbatim>\<open>
  targets = []
  for item in data:
      try:
          targets.append(to_nmap_range(item['start'], item['end']))
      except KeyError as e:
          print(f"Missing key in data item: {e}")
  \<close>
  Only \<^verbatim>\<open>KeyError\<close> is caught; a \<^verbatim>\<open>ValueError\<close> or \<^verbatim>\<open>IndexError\<close> of \<open>to_nmap_range\<close> ends
  the script. The result pairs the targets with the printed lines.
\<close>

definition item_get :: "item \<Rightarrow> string \<Rightarrow> py_exn + string" where
  "item_get it k = (case map_of it k of None \<Rightarrow> Inl (KeyError k) | Some v \<Rightarrow> Inr v)"

definition item_target :: "item \<Rightarrow> py_exn + string" where
  "item_target it =
     (case item_get it ''start'' of
        Inl x \<Rightarrow> Inl x
      | Inr a \<Rightarrow> (case item_get it ''end'' of Inl x \<Rightarrow> Inl x | Inr b \<Rightarrow> to_nmap_range a b))"

fun build_targets :: "item list \<Rightarrow> py_exn + (string list \<times> string list)" where
  "build_targets [] = Inr ([], [])"
| "build_targets (it # its) =
     (case item_target it of
        Inr t \<Rightarrow>
          (case build_targets its of
             Inl x \<Rightarrow> Inl x
           | Inr (ts, out) \<Rightarrow> Inr (t # ts, out))
      | Inl (KeyError k) \<Rightarrow>
          (case build_targets its of
             Inl x \<Rightarrow> Inl x
           | Inr (ts, out) \<Rightarrow> Inr (ts, (''Missing key in data item: '' @ [CHR 0x27] @ k @ [CHR 0x27]) # out))
      | Inl x \<Rightarrow> Inl x)"

text \<open>
  \<^verbatim>\<open>
  if os.path.exists(STATE_FILE):
      with open(STATE_FILE, "r") as f:
          state = json.load(f)
  else:
      state = {"completed_targets": []}
  \<close>
  The state is the list under \<^verbatim>\<open>"completed_targets"\<close>. Nothing catches the exception of
  \<^verbatim>\<open>json.load\<close>.
\<close>

definition scanner_load_state :: "string list json_file \<Rightarrow> py_exn + string list" where
  "scanner_load_state f =
     (case f of
        NoFile \<Rightarrow> Inr []
      | Garbage \<Rightarrow> Inl JSONDecodeError
      | Stored completed \<Rightarrow> Inr completed)"

section \<open>Scanner: one target\<close>

definition PORTS :: string where
  "PORTS = ''11434''"

definition MAX_WORKERS :: nat where
  "MAX_WORKERS = 24"

definition RETRIES :: nat where
  "RETRIES = 3"

text \<open>\<^verbatim>\<open>ports_list = [int(p) for p in PORTS.split(",")]\<close>; the constant parses.\<close>

definition ports_list :: "int list" where
  "ports_list = (case map_raising py_int (py_split CHR '','' PORTS) of Inr ps \<Rightarrow> ps | Inl _ \<Rightarrow> [])"

text \<open>
  What one call of \<^verbatim>\<open>nm.scan\<close> does: it raises, or it leaves a report, the hosts of
  \<^verbatim>\<open>nm.all_hosts()\<close> in order, each with its table of TCP ports and their states.
\<close>

type_synonym host_report = "string \<times> (int \<times> string) list"

datatype scan_outcome = ScanRaises | Report "host_report list"

text \<open>\<^verbatim>\<open>nm[host].has_tcp(p) and nm[host]['tcp'][p]['state'] == 'open'\<close>\<close>

definition port_open :: "(int \<times> string) list \<Rightarrow> int \<Rightarrow> bool" where
  "port_open tcp p = (map_of tcp p = Some ''open'')"

definition open_ports :: "(int \<times> string) list \<Rightarrow> string list" where
  "open_ports tcp = map py_str (filter (port_open tcp) ports_list)"

text \<open>The effects of the scanner's workers on the shared files and the shared state, one
  event per atomic action.\<close>

datatype event =
    NmScan string nat
  | Sleep nat
  | CsvRow string string
  | MarkCompleted string
  | SaveState

text \<open>
  \<^verbatim>\<open>
  for host in nm.all_hosts():
      open_ports = []
      for p in ports_list:
          if nm[host].has_tcp(p) and nm[host]['tcp'][p]['state'] == 'open':
              open_ports.append(str(p))
      if open_ports:
          result[host] = ",".join(open_ports)
          with csv_lock:
              with open(CSV_FILE, "a", newline="") as f:
                  writer = csv.writer(f)
                  writer.writerow([host, result[host]])
  \<close>
\<close>

fun host_rows :: "host_report list \<Rightarrow> event list" where
  "host_rows [] = []"
| "host_rows ((host, tcp) # rest) =
     (if open_ports tcp \<noteq> []
      then CsvRow host (py_join '','' (open_ports tcp)) # host_rows rest
      else host_rows rest)"

text \<open>
  \<^verbatim>\<open>
  for attempt in range(RETRIES):
      try:
          nm.scan(hosts=target, ports=PORTS, arguments="-Pn -T4")
          ...                       # the host loop above
          with state_lock:
              state["completed_targets"].append(target)
          save_state()
          return len(nm.all_hosts())
      except Exception:
          if attempt + 1 == RETRIES:
              return 0
          time.sleep(2)
  \<close>
  \<open>nm a\<close> is what the scan of attempt \<open>a\<close> does. The result is the trace of events and the
  returned value (\<open>None\<close> when the loop body never runs). File operations are taken to
  succeed.
\<close>

function scan_attempts ::
  "nat \<Rightarrow> (nat \<Rightarrow> scan_outcome) \<Rightarrow> string \<Rightarrow> nat \<Rightarrow> event list \<times> int option" where
  "scan_attempts retries nm target attempt =
     (if attempt < retries then
        (case nm attempt of
           Report hosts \<Rightarrow>
             (NmScan target attempt # host_rows hosts @ [MarkCompleted target, SaveState],
              Some (int (length hosts)))
         | ScanRaises \<Rightarrow>
             if attempt + 1 = retries then ([NmScan target attempt], Some 0)
             else (case scan_attempts retries nm target (attempt + 1) of
                     (evs, r) \<Rightarrow> (NmScan target attempt # Sleep 2 # evs, r)))
      else ([], None))"
  by pat_completeness auto
termination
  by (relation "measure (\<lambda>(retries, nm, target, attempt). retries - attempt)") auto

declare scan_attempts.simps [simp del]

text \<open>\<^verbatim>\<open>nm = nmap.PortScanner()\<close> stands before the loop, outside the \<^verbatim>\<open>try\<close>: it raises
  \<^verbatim>\<open>PortScannerError\<close> when the nmap program is not installed.\<close>

definition scan_target ::
  "bool \<Rightarrow> (nat \<Rightarrow> scan_outcome) \<Rightarrow> string \<Rightarrow> py_exn + (event list \<times> int option)" where
  "scan_target nmap_installed nm target =
     (if nmap_installed then Inr (scan_attempts RETRIES nm target 0) else Inl PortScannerError)"

section \<open>Scanner: the shared world and the worker pool\<close>

text \<open>
  The result sink \<^verbatim>\<open>nmap_results.csv\<close> (its rows, the header first), the in-memory
  \<^verbatim>\<open>state["completed_targets"]\<close>, and the checkpoint \<^verbatim>\<open>state.json\<close>.
\<close>

record scan_world =
  csv_file :: "string list list option"
  completed_targets :: "string list"
  state_file :: "string list json_file"



text \<open>
  \<^verbatim>\<open>
  with concurrent.futures.ThreadPoolExecutor(max_workers=MAX_WORKERS) as exe:
      futures = {}
      for t in targets:
          if t not in state["completed_targets"]:
              futures[exe.submit(scan_target, t)] = t
  \<close>
\<close>

definition dispatch :: "string list \<Rightarrow> string list \<Rightarrow> string list" where
  "dispatch targets completed = filter (\<lambda>t. t \<notin> set completed) targets"

text \<open>
  The workers run \<open>scan_target\<close> concurrently. A worker's control flow never reads the
  shared state, so its run is the trace of \<open>scan_attempts\<close>, and a run of the pool is an
  interleaving of the workers' traces: a schedule names, step by step, the job whose next
  event happens. \<open>nm j a\<close> is what attempt \<open>a\<close> of job \<open>j\<close> finds. The pool size only
  excludes schedules, so what holds for every schedule holds for the pool.
\<close>

definition job_trace :: "(nat \<Rightarrow> nat \<Rightarrow> scan_outcome) \<Rightarrow> string list \<Rightarrow> nat \<Rightarrow> event list" where
  "job_trace nm jobs j = fst (scan_attempts RETRIES (nm j) (jobs ! j) 0)"

record pool =
  world :: scan_world
  pcs :: "nat list"




text \<open>
  The start of a run, from the script's top level: the checkpoint is loaded, the sink gets
  its header row when it does not exist, and the targets not yet completed become the jobs.
  \<^verbatim>\<open>
  if not os.path.exists(CSV_FILE):
      with open(CSV_FILE, "w", newline="") as f:
          writer = csv.writer(f)
          writer.writerow(["Host", "Open Ports"])
  \<close>
\<close>

definition csv_init :: "string list list option \<Rightarrow> string list list option" where
  "csv_init f = (case f of None \<Rightarrow> Some [[''Host'', ''Open Ports'']] | Some rows \<Rightarrow> Some rows)"

definition scanner_start ::
  "string list \<Rightarrow> string list list option \<Rightarrow> string list json_file \<Rightarrow> py_exn + (string list \<times> pool)" where
  "scanner_start targets csv st =
     (case scanner_load_state st of
        Inl x \<Rightarrow> Inl x
      | Inr completed \<Rightarrow>
          Inr (dispatch targets completed,
               \<lparr>world = \<lparr>csv_file = csv_init csv, completed_targets = completed, state_file = st\<rparr>,
                pcs = replicate (length (dispatch targets completed)) 0\<rparr>))"


text \<open>The attempt of a job that succeeds, if one of its \<open>RETRIES\<close> attempts does: the
  first that does not raise.\<close>

fun first_report :: "(nat \<Rightarrow> scan_outcome) \<Rightarrow> nat \<Rightarrow> nat \<Rightarrow> host_report list option" where
  "first_report nm a 0 = None"
| "first_report nm a (Suc k) =
     (case nm a of Report hosts \<Rightarrow> Some hosts | ScanRaises \<Rightarrow> first_report nm (Suc a) k)"

section \<open>Checker: checkpoint and probe\<close>

text \<open>
  The checkpoint \<^verbatim>\<open>ollama-state.json\<close>: the keys already checked and the hosts found so
  far (each a \<^verbatim>\<open>{"Host": h, "Open Ports": p}\<close> dictionary, here a pair). A Python set is a
  list without repetitions; its order stands for the arbitrary order of the set, which
  the script never reads.
\<close>

record checker_state =
  ckpt_checked :: "string list"
  ckpt_found :: "(string \<times> string) list"

definition empty_state :: checker_state where
  "empty_state = \<lparr>ckpt_checked = [], ckpt_found = []\<rparr>"

text \<open>
  \<^verbatim>\<open>
  def load_state():
      if os.path.exists(STATE_FILE):
          try:
              with open(STATE_FILE, "r") as f:
                  return json.load(f)
          except:
              return {"checked": set(), "found": []}
      return {"checked": set(), "found": []}
  \<close>
\<close>

definition load_state_try :: "checker_state json_file \<Rightarrow> py_exn + checker_state" where
  "load_state_try f =
     (case f of
        Stored st \<Rightarrow> Inr st
      | Garbage \<Rightarrow> Inl JSONDecodeError
      | NoFile \<Rightarrow> Inl (FileNotFoundError ''ollama-state.json''))"

definition load_state :: "checker_state json_file \<Rightarrow> py_exn + checker_state" where
  "load_state f =
     (if f \<noteq> NoFile
      then (case load_state_try f of Inr st \<Rightarrow> Inr st | Inl _ \<Rightarrow> Inr empty_state)
      else Inr empty_state)"

text \<open>\<^verbatim>\<open>checked_set.add(key)\<close>\<close>

definition set_add :: "string \<Rightarrow> string list \<Rightarrow> string list" where
  "set_add k ks = (if k \<in> set ks then ks else ks @ [k])"

text \<open>\<^verbatim>\<open>f"{host}:{port}"\<close>\<close>

definition host_port_key :: "string \<Rightarrow> string \<Rightarrow> string" where
  "host_port_key host port = host @ '':'' @ port"

text \<open>
  \<^verbatim>\<open>
  def check_ollama_host(host, port, timeout=5):
      try:
          url = f"http://{host}:{port}"
          response = requests.get(url, timeout=timeout, verify=False)
          if "Ollama is running" in response.text:
              return (host, port, True)
          if response.status_code == 200:
              return (host, port, True)
      except requests.exceptions.RequestException:
          pass
      return (host, port, False)
  \<close>
  The network is the parameter \<open>http\<close>: what a GET of the URL does.
\<close>

datatype http_reply = RequestFails string | Reply string int

definition check_ollama_host ::
  "(string \<Rightarrow> nat \<Rightarrow> http_reply) \<Rightarrow> string \<Rightarrow> string \<Rightarrow> nat \<Rightarrow> string \<times> string \<times> bool" where
  "check_ollama_host http host port timeout =
     (case http (''http://'' @ host @ '':'' @ port) timeout of
        RequestFails _ \<Rightarrow> (host, port, False)
      | Reply body status_code \<Rightarrow>
          if sublist ''Ollama is running'' body then (host, port, True)
          else if status_code = 200 then (host, port, True)
          else (host, port, False))"

section \<open>Checker: the main loop\<close>

text \<open>The effects of \<open>main\<close>, in program order.\<close>

datatype chk_event =
    Submit string string
  | Progress nat nat nat
  | SaveCkpt checker_state
  | WriteOllamaCsv "(string \<times> string) list"
  | Print string

record loop_state =
  checked_set :: "string list"
  checked :: nat
  found :: nat
  ollama_hosts :: "(string \<times> string) list"

definition save_now :: "loop_state \<Rightarrow> chk_event" where
  "save_now ls = SaveCkpt \<lparr>ckpt_checked = checked_set ls, ckpt_found = ollama_hosts ls\<rparr>"

text \<open>
  \<^verbatim>\<open>
  for future in as_completed(futures):
      host, port, is_ollama = future.result()
      host_port_key = f"{host}:{port}"
      checked_set.add(host_port_key)
      checked += 1
      if is_ollama:
          found += 1
          ollama_hosts.append({"Host": host, "Open Ports": port})
      update_progress(checked, total, found)
      if checked % 10 == 0 or checked == len(hosts_to_check):
          state = {"checked": list(checked_set), "found": ollama_hosts}
          save_state(state)
  \<close>
  One iteration, for the future of \<open>(h, p)\<close>.
\<close>

definition loop_body ::
  "(string \<Rightarrow> nat \<Rightarrow> http_reply) \<Rightarrow> nat \<Rightarrow> nat \<Rightarrow> string \<times> string \<Rightarrow> loop_state \<Rightarrow> chk_event list \<times> loop_state" where
  "loop_body http total' n_to_check hp ls =
     (case check_ollama_host http (fst hp) (snd hp) 5 of
        (host, port, is_ollama) \<Rightarrow>
          let ls1 = ls\<lparr>checked_set := set_add (host_port_key host port) (checked_set ls),
                      checked := checked ls + 1\<rparr>;
              ls2 = (if is_ollama
                     then ls1\<lparr>found := found ls1 + 1, ollama_hosts := ollama_hosts ls1 @ [(host, port)]\<rparr>
                     else ls1)
          in (Progress (checked ls2) total' (found ls2) #
                (if checked ls2 mod 10 = 0 \<or> checked ls2 = n_to_check then [save_now ls2] else []),
              ls2))"

fun completion_loop ::
  "(string \<Rightarrow> nat \<Rightarrow> http_reply) \<Rightarrow> nat \<Rightarrow> nat \<Rightarrow> (string \<times> string) list \<Rightarrow> loop_state \<Rightarrow> chk_event list \<times> loop_state" where
  "completion_loop http total' n_to_check [] ls = ([], ls)"
| "completion_loop http total' n_to_check (hp # rest) ls =
     (case loop_body http total' n_to_check hp ls of
        (evs, ls2) \<Rightarrow>
          (case completion_loop http total' n_to_check rest ls2 of
             (evs', ls') \<Rightarrow> (evs @ evs', ls')))"














section \<open>Model lister: one host\<close>

text \<open>A decoded JSON document, and what Python does with one.\<close>

datatype json =
    JNull
  | JBool bool
  | JNum int
  | JStr string
  | JArr "json list"
  | JObj "(string \<times> json) list"

fun type_name :: "json \<Rightarrow> string" where
  "type_name JNull = ''NoneType''"
| "type_name (JBool b) = ''bool''"
| "type_name (JNum n) = ''int''"
| "type_name (JStr s) = ''str''"
| "type_name (JArr xs) = ''list''"
| "type_name (JObj kvs) = ''dict''"

fun truthy :: "json \<Rightarrow> bool" where
  "truthy JNull = False"
| "truthy (JBool b) = b"
| "truthy (JNum n) = (n \<noteq> 0)"
| "truthy (JStr s) = (s \<noteq> [])"
| "truthy (JArr xs) = (xs \<noteq> [])"
| "truthy (JObj kvs) = (kvs \<noteq> [])"

text \<open>\<^verbatim>\<open>v.get(key, default)\<close>: only a dictionary has the method. An exception is its
  message, which is all the caller keeps of it.\<close>

fun py_get :: "json \<Rightarrow> string \<Rightarrow> json \<Rightarrow> string + json" where
  "py_get (JObj kvs) k dflt = (case map_of kvs k of None \<Rightarrow> Inr dflt | Some v \<Rightarrow> Inr v)"
| "py_get v k dflt = Inl ([CHR 0x27] @ type_name v @ [CHR 0x27] @ '' object has no attribute '' @ [CHR 0x27] @ ''get'' @ [CHR 0x27])"

text \<open>\<^verbatim>\<open>for m in v\<close>: a list gives its elements, a dictionary its keys, a string its
  characters; nothing else is iterable.\<close>

fun py_iter :: "json \<Rightarrow> string + json list" where
  "py_iter (JArr xs) = Inr xs"
| "py_iter (JObj kvs) = Inr (map (\<lambda>kv. JStr (fst kv)) kvs)"
| "py_iter (JStr s) = Inr (map (\<lambda>c. JStr [c]) s)"
| "py_iter v = Inl ([CHR 0x27] @ type_name v @ [CHR 0x27] @ '' object is not iterable'')"

text \<open>\<^verbatim>\<open>[m.get("name") for m in ms if m.get("name")]\<close>\<close>

fun model_names :: "json list \<Rightarrow> string + json list" where
  "model_names [] = Inr []"
| "model_names (m # ms) =
     (case py_get m ''name'' JNull of
        Inl e \<Rightarrow> Inl e
      | Inr c \<Rightarrow>
          if truthy c
          then (case py_get m ''name'' JNull of
                  Inl e \<Rightarrow> Inl e
                | Inr v \<Rightarrow> (case model_names ms of Inl e \<Rightarrow> Inl e | Inr vs \<Rightarrow> Inr (v # vs)))
          else model_names ms)"

text \<open>What the GET of \<^verbatim>\<open>{base_url}/api/tags\<close> does: \<^verbatim>\<open>requests.get\<close> raises,
  \<^verbatim>\<open>raise_for_status\<close> raises, the body is not JSON (its text and the status code), or
  the body decodes. The string of a raised exception is its \<^verbatim>\<open>str(e)\<close>.\<close>

datatype tags_reply =
    GetRaises string
  | StatusRaises string
  | NotJson string int
  | Decoded json

text \<open>The values of the result dictionary.\<close>

datatype py_val = PNone | PStr string | PList "json list"

type_synonym py_dict = "(string \<times> py_val) list"

text \<open>\<^verbatim>\<open>d[k] = v\<close>: an existing key keeps its place, a new key goes last.\<close>

fun dict_set :: "py_dict \<Rightarrow> string \<Rightarrow> py_val \<Rightarrow> py_dict" where
  "dict_set [] k v = [(k, v)]"
| "dict_set ((k', v') # kvs) k v = (if k' = k then (k, v) # kvs else (k', v') # dict_set kvs k v)"

text \<open>\<^verbatim>\<open>s.rstrip("/")\<close> and \<^verbatim>\<open>s.startswith(p)\<close>\<close>

definition rstrip_slash :: "string \<Rightarrow> string" where
  "rstrip_slash s = rev (dropWhile (\<lambda>c. c = CHR ''/'') (rev s))"

definition base_url_of :: "string \<Rightarrow> string" where
  "base_url_of host =
     (if prefix ''http://'' host \<or> prefix ''https://'' host
      then rstrip_slash host
      else ''http://'' @ rstrip_slash host)"

text \<open>
  The \<^verbatim>\<open>try\<close> block of \<open>fetch_ollama_info\<close>:
  \<^verbatim>\<open>
  resp = requests.get(f"{base_url}/api/tags", timeout=timeout)
  resp.raise_for_status()
  try:
      tags = resp.json()
  except ValueError:
      text_snippet = resp.text[:200].replace("\n", " ")
      raise Exception(f"Invalid JSON from {base_url}/api/tags: {text_snippet} (status={resp.status_code})")
  result["models"] = [m.get("name") for m in tags.get("models", []) if m.get("name")]
  \<close>
  It ends with the new value of \<^verbatim>\<open>result["models"]\<close> or with the message of the exception.
\<close>

definition fetch_try :: "(string \<Rightarrow> nat \<Rightarrow> tags_reply) \<Rightarrow> string \<Rightarrow> nat \<Rightarrow> string + json list" where
  "fetch_try get base_url timeout =
     (case get (base_url @ ''/api/tags'') timeout of
        GetRaises e \<Rightarrow> Inl e
      | StatusRaises e \<Rightarrow> Inl e
      | NotJson body status_code \<Rightarrow>
          Inl (''Invalid JSON from '' @ base_url @ ''/api/tags: '' @
               map (\<lambda>c. if c = CHR 0x0A then CHR '' '' else c) (take 200 body) @
               '' (status='' @ py_str status_code @ '')'')
      | Decoded tags \<Rightarrow>
          (case py_get tags ''models'' (JArr []) of
             Inl e \<Rightarrow> Inl e
           | Inr ms \<Rightarrow> (case py_iter ms of Inl e \<Rightarrow> Inl e | Inr xs \<Rightarrow> model_names xs)))"

text \<open>
  \<^verbatim>\<open>
  result = {"host": host, "status": "ok", "models": [], "runtime": "unknown", "error": None}
  try:
      ...
  except Exception as e:
      result["status"] = "error"
      result["error"] = str(e)
  return result
  \<close>
  The result type keeps a place for an exception that would leave the function.
\<close>

definition fetch_ollama_info :: "(string \<Rightarrow> nat \<Rightarrow> tags_reply) \<Rightarrow> string \<Rightarrow> nat \<Rightarrow> py_exn + py_dict" where
  "fetch_ollama_info get host timeout =
     (let base_url = base_url_of host;
          result = [(''host'', PStr host), (''status'', PStr ''ok''), (''models'', PList []),
                    (''runtime'', PStr ''unknown''), (''error'', PNone)]
      in case fetch_try get base_url timeout of
           Inr models \<Rightarrow> Inr (dict_set result ''models'' (PList models))
         | Inl e \<Rightarrow> Inr (dict_set (dict_set result ''status'' (PStr ''error'')) ''error'' (PStr e)))"

section \<open>Observations on traces\<close>

text \<open>What a trace of the scanner writes to the sink and which targets it marks; the
  trace of attempts that all raise.\<close>
fun retry_trace :: "string \<Rightarrow> nat \<Rightarrow> nat \<Rightarrow> event list" where
  "retry_trace t a 0 = []"
| "retry_trace t a (Suc 0) = [NmScan t a]"
| "retry_trace t a (Suc (Suc k)) = NmScan t a # Sleep 2 # retry_trace t (Suc a) (Suc k)"

fun written_rows :: "event list \<Rightarrow> string list list" where
  "written_rows [] = []"
| "written_rows (CsvRow host ports # es) = [host, ports] # written_rows es"
| "written_rows (e # es) = written_rows es"

fun marked :: "event list \<Rightarrow> string list" where
  "marked [] = []"
| "marked (MarkCompleted t # es) = t # marked es"
| "marked (e # es) = marked es"







text \<open>Observations on the checker: whether a probe is positive, the keys of a list of
  hosts, the checkpoint a loop state is saved as, the loop state after a list of
  completions, and what a trace submits, saves and writes to the sink.\<close>


definition is_ollama :: "(string \<Rightarrow> nat \<Rightarrow> http_reply) \<Rightarrow> string \<times> string \<Rightarrow> bool" where
  "is_ollama http hp = snd (snd (check_ollama_host http (fst hp) (snd hp) 5))"

definition positives :: "(string \<Rightarrow> nat \<Rightarrow> http_reply) \<Rightarrow> (string \<times> string) list \<Rightarrow> (string \<times> string) list" where
  "positives http cs = filter (is_ollama http) cs"

definition keys_of :: "(string \<times> string) list \<Rightarrow> string list" where
  "keys_of cs = map (\<lambda>hp. host_port_key (fst hp) (snd hp)) cs"

definition ckpt_of :: "loop_state \<Rightarrow> checker_state" where
  "ckpt_of ls = \<lparr>ckpt_checked = checked_set ls, ckpt_found = ollama_hosts ls\<rparr>"

definition loop_after :: "(string \<Rightarrow> nat \<Rightarrow> http_reply) \<Rightarrow> (string \<times> string) list \<Rightarrow> loop_state \<Rightarrow> loop_state" where
  "loop_after http cs ls =
     \<lparr>checked_set = foldl (\<lambda>ks k. set_add k ks) (checked_set ls) (keys_of cs),
      checked = checked ls + length cs,
      found = found ls + length (positives http cs),
      ollama_hosts = ollama_hosts ls @ positives http cs\<rparr>"

fun submitted :: "chk_event list \<Rightarrow> (string \<times> string) list" where
  "submitted [] = []"
| "submitted (Submit h p # es) = (h, p) # submitted es"
| "submitted (e # es) = submitted es"










section \<open>Example inputs\<close>

text \<open>A scan that finds one host with the port open and one with it closed, a network on
  which every host answers as Ollama does, a scan that always raises, and two disks of
  the checker with one and two hosts to check.\<close>

definition example_report :: "nat \<Rightarrow> nat \<Rightarrow> scan_outcome" where
  "example_report j a = Report [(''10.0.0.5'', [(11434, ''open'')]), (''10.0.0.6'', [(11434, ''closed'')])]"





chapter \<open>Verification\<close>

section \<open>Strings and numbers\<close>


lemma py_split_nonempty: "py_split c xs \<noteq> []"
  by (induction xs) (auto split: list.splits)

lemma py_split_no_sep: "c \<notin> set xs \<Longrightarrow> py_split c xs = [xs]"
  by (induction xs) auto

lemma py_split_at_sep: "c \<notin> set xs \<Longrightarrow> py_split c (xs @ c # ys) = xs # py_split c ys"
  by (induction xs) auto

lemma is_digit_digit_char: "d < 10 \<Longrightarrow> is_digit (digit_char d)"
  by (simp add: is_digit_def digit_char_def)

lemma digit_val_digit_char: "d < 10 \<Longrightarrow> digit_val (digit_char d) = d"
  by (simp add: digit_val_def digit_char_def)

lemma str_nat_digits: "list_all is_digit (str_nat n)"
proof (induction n rule: str_nat.induct)
  case (1 n)
  show ?case
  proof (cases "n < 10")
    case True
    then show ?thesis by (subst str_nat.simps) (simp add: is_digit_digit_char)
  next
    case False
    with 1 show ?thesis by (subst str_nat.simps) (simp add: is_digit_digit_char)
  qed
qed

lemma str_nat_nonempty: "str_nat n \<noteq> []"
  by (subst str_nat.simps) simp

lemma digits_value_snoc: "digits_value (ds @ [c]) = 10 * digits_value ds + digit_val c"
  by (simp add: digits_value_def)

lemma digits_value_str_nat: "digits_value (str_nat n) = n"
proof (induction n rule: str_nat.induct)
  case (1 n)
  show ?case
  proof (cases "n < 10")
    case True
    then show ?thesis by (subst str_nat.simps) (simp add: digits_value_def digit_val_digit_char)
  next
    case False
    with 1 show ?thesis by (subst str_nat.simps) (simp add: digits_value_snoc digit_val_digit_char)
  qed
qed

lemma parse_nat_str_nat: "parse_nat (str_nat n) = Some n"
  by (simp add: parse_nat_def str_nat_digits str_nat_nonempty digits_value_str_nat)

lemma is_digit_not_special:
  "is_digit c \<Longrightarrow> c \<noteq> CHR ''.'' \<and> c \<noteq> CHR ''-'' \<and> c \<noteq> CHR ''+'' \<and> c \<noteq> CHR ''_'' \<and> \<not> is_space c"
  by (auto simp: is_digit_def is_space_def)

lemma digits_no_char:
  "list_all is_digit ds \<Longrightarrow> \<not> is_digit c \<Longrightarrow> c \<notin> set ds"
  by (auto simp: list_all_iff)

lemma not_digit_dot: "\<not> is_digit CHR ''.''" and not_digit_minus: "\<not> is_digit CHR ''-''"
  by (simp_all add: is_digit_def)

lemma py_strip_digits: "ds \<noteq> [] \<Longrightarrow> list_all is_digit ds \<Longrightarrow> py_strip ds = ds"
proof -
  assume ne: "ds \<noteq> []" and dg: "list_all is_digit ds"
  from ne dg have "\<not> is_space (hd ds)"
    by (cases ds) (auto dest: is_digit_not_special)
  with ne have a: "dropWhile is_space ds = ds" by (cases ds) auto
  from ne dg have "\<not> is_space (last ds)"
    using is_digit_not_special by (auto simp: list_all_iff)
  with ne have "\<not> is_space (hd (rev ds))" by (simp add: hd_rev)
  with ne have "dropWhile is_space (rev ds) = rev ds" by (cases "rev ds") auto
  with a show ?thesis by (simp add: py_strip_def)
qed

lemma digit_groups_ok_digits: "ds \<noteq> [] \<Longrightarrow> list_all is_digit ds \<Longrightarrow> digit_groups_ok ds"
  by (induction ds rule: digit_groups_ok.induct) (auto dest: is_digit_not_special)

lemma filter_underscore_digits: "list_all is_digit ds \<Longrightarrow> filter (\<lambda>c. c \<noteq> CHR ''_'') ds = ds"
  by (induction ds) (auto dest: is_digit_not_special)

lemma py_int_parse_nat: "parse_nat p = Some n \<Longrightarrow> py_int p = Inr (int n)"
proof -
  assume "parse_nat p = Some n"
  then have ne: "p \<noteq> []" and dg: "list_all is_digit p" and v: "digits_value p = n"
    by (auto simp: parse_nat_def split: if_splits)
  obtain c r where p: "p = c # r" using ne by (cases p) auto
  with dg have "is_digit c" by simp
  then have c: "c \<noteq> CHR ''-''" "c \<noteq> CHR ''+''" using is_digit_not_special by blast+
  have u: "py_int_unsigned p = Inr (int n)"
    using ne dg v
    by (simp add: py_int_unsigned_def digit_groups_ok_digits filter_underscore_digits)
  have "py_int p = py_int_unsigned p"
    using c by (simp add: py_int_def py_strip_digits [OF ne dg] p [symmetric]) (simp add: p)
  with u show ?thesis by simp
qed


lemma str_nat_no_dot: "CHR ''.'' \<notin> set (str_nat n)"
  using digits_no_char [OF str_nat_digits not_digit_dot] .

lemma str_nat_no_minus: "CHR ''-'' \<notin> set (str_nat n)"
  using digits_no_char [OF str_nat_digits not_digit_minus] .

lemma py_str_nat: "py_str (int n) = str_nat n"
  by (simp add: py_str_def)

lemma octet_range_nat: "octet_range (int a) (int b) = str_nat a @ CHR ''-'' # str_nat b"
  by (simp add: octet_range_def py_str_nat)

lemma octet_range_no_dot: "CHR ''.'' \<notin> set (octet_range (int a) (int b))"
  by (simp add: octet_range_nat str_nat_no_dot)

lemma octet_interval_octet_range: "octet_interval (octet_range (int a) (int b)) = Some (a, b)"
  by (simp add: octet_interval_def octet_range_nat py_split_at_sep [OF str_nat_no_minus]
      py_split_no_sep [OF str_nat_no_minus] parse_nat_str_nat)

lemma range_intervals_quad:
  "range_intervals (octet_range (int a0) (int b0) @ ''.'' @ octet_range (int a1) (int b1) @ ''.'' @
                    octet_range (int a2) (int b2) @ ''.'' @ octet_range (int a3) (int b3))
   = Some [(a0, b0), (a1, b1), (a2, b2), (a3, b3)]"
  by (simp add: range_intervals_def py_split_at_sep [OF octet_range_no_dot]
      py_split_no_sep [OF octet_range_no_dot] octet_interval_octet_range)

lemma map_raising_py_int:
  "those (map parse_nat fs) = Some ns \<Longrightarrow> map_raising py_int fs = Inr (map int ns)"
proof (induction fs arbitrary: ns)
  case Nil
  then show ?case by simp
next
  case (Cons f fs)
  then show ?case
    by (auto split: option.splits simp: py_int_parse_nat)
qed

lemma those_length: "those xs = Some ys \<Longrightarrow> length ys = length xs"
  by (induction xs arbitrary: ys) (auto split: option.splits)

lemma dotted_quad_fields:
  assumes "dotted_quad s = Some os"
  shows "length os = 4 \<and> map_raising py_int (py_split CHR ''.'' s) = Inr (map int os)"
proof -
  from assms have l: "length (py_split CHR ''.'' s) = 4"
    and t: "those (map parse_nat (py_split CHR ''.'' s)) = Some os"
    by (auto simp: dotted_quad_def Let_def split: if_splits option.splits)
  from those_length [OF t] l have "length os = 4" by simp
  with map_raising_py_int [OF t] show ?thesis by simp
qed

lemma length4E:
  assumes "length xs = 4"
  obtains a b c d where "xs = [a, b, c, d]"
  using assms by (auto simp: length_Suc_conv numeral_eq_Suc)

section \<open>Target expansion covers the product of the octet intervals\<close>

lemma all_less_4: "(\<forall>i<4::nat. P i) \<longleftrightarrow> P 0 \<and> P 1 \<and> P 2 \<and> P 3"
proof -
  have "\<And>i::nat. i < 4 \<longleftrightarrow> i = 0 \<or> i = 1 \<or> i = 2 \<or> i = 3" by arith
  then show ?thesis by auto
qed

lemma range_covers_quad:
  "range_covers (octet_range (int a0) (int b0) @ ''.'' @ octet_range (int a1) (int b1) @ ''.'' @
                 octet_range (int a2) (int b2) @ ''.'' @ octet_range (int a3) (int b3)) addr
   \<longleftrightarrow> list_all2 in_interval [(a0, b0), (a1, b1), (a2, b2), (a3, b3)] addr"
  unfolding range_covers_def range_intervals_quad by simp

text \<open>
  Claim C4. For two dotted quads \<open>start\<close> and \<open>endp\<close> with octets \<open>s\<close> and \<open>e\<close>, the
  expander returns the one range expression \<^verbatim>\<open>s0-e0.s1-e1.s2-e2.s3-e3\<close>, and reading that
  expression back field by field covers an address exactly when the address has four
  octets and each lies in the interval from \<open>s ! i\<close> to \<open>e ! i\<close>: the product of the four
  intervals and nothing outside it.
\<close>

theorem to_nmap_range_covers_product:
  assumes "dotted_quad start = Some s" and "dotted_quad endp = Some e"
  shows "\<exists>r. to_nmap_range start endp = Inr r
       \<and> r = str_nat (s ! 0) @ ''-'' @ str_nat (e ! 0) @ ''.'' @
             str_nat (s ! 1) @ ''-'' @ str_nat (e ! 1) @ ''.'' @
             str_nat (s ! 2) @ ''-'' @ str_nat (e ! 2) @ ''.'' @
             str_nat (s ! 3) @ ''-'' @ str_nat (e ! 3)
       \<and> (\<forall>addr. range_covers r addr \<longleftrightarrow>
                 (length addr = 4 \<and> (\<forall>i<4. s ! i \<le> addr ! i \<and> addr ! i \<le> e ! i)))"
proof -
  from dotted_quad_fields [OF assms(1)] obtain s0 s1 s2 s3
    where s: "s = [s0, s1, s2, s3]"
      and ps: "map_raising py_int (py_split CHR ''.'' start) = Inr (map int s)"
    by (auto elim: length4E)
  from dotted_quad_fields [OF assms(2)] obtain e0 e1 e2 e3
    where e: "e = [e0, e1, e2, e3]"
      and pe: "map_raising py_int (py_split CHR ''.'' endp) = Inr (map int e)"
    by (auto elim: length4E)
  let ?r = "octet_range (int s0) (int e0) @ ''.'' @ octet_range (int s1) (int e1) @ ''.'' @
            octet_range (int s2) (int e2) @ ''.'' @ octet_range (int s3) (int e3)"
  have r: "to_nmap_range start endp = Inr ?r"
    by (simp add: to_nmap_range_def ps pe s e)
  have shape: "?r = str_nat (s ! 0) @ ''-'' @ str_nat (e ! 0) @ ''.'' @
                str_nat (s ! 1) @ ''-'' @ str_nat (e ! 1) @ ''.'' @
                str_nat (s ! 2) @ ''-'' @ str_nat (e ! 2) @ ''.'' @
                str_nat (s ! 3) @ ''-'' @ str_nat (e ! 3)"
    by (simp add: octet_range_nat s e)
  have cov: "range_covers ?r addr \<longleftrightarrow>
             (length addr = 4 \<and> (\<forall>i<4. s ! i \<le> addr ! i \<and> addr ! i \<le> e ! i))" for addr
  proof (cases "length addr = 4")
    case True
    then obtain a b c d where addr: "addr = [a, b, c, d]" by (auto elim: length4E)
    show ?thesis
      unfolding range_covers_quad
      by (simp add: addr s e in_interval_def all_less_4)
  next
    case False
    then show ?thesis
      unfolding range_covers_quad
      by (auto dest: list_all2_lengthD)
  qed
  from r shape cov show ?thesis by metis
qed

theorem to_nmap_range_covers_product_witness:
  "dotted_quad ''10.0.0.1'' = Some [10, 0, 0, 1] \<and> dotted_quad ''10.0.3.255'' = Some [10, 0, 3, 255]
   \<and> to_nmap_range ''10.0.0.1'' ''10.0.3.255'' = Inr ''10-10.0-0.0-3.1-255''
   \<and> range_covers ''10-10.0-0.0-3.1-255'' [10, 0, 2, 77]
   \<and> \<not> range_covers ''10-10.0-0.0-3.1-255'' [10, 0, 4, 77]"
proof -
  have a: "dotted_quad ''10.0.0.1'' = Some [10, 0, 0, 1]" by code_simp
  have b: "dotted_quad ''10.0.3.255'' = Some [10, 0, 3, 255]" by code_simp
  have c: "to_nmap_range ''10.0.0.1'' ''10.0.3.255'' = Inr ''10-10.0-0.0-3.1-255''" by code_simp
  from to_nmap_range_covers_product [OF a b]
  have t: "range_covers ''10-10.0-0.0-3.1-255'' addr \<longleftrightarrow>
        (length addr = 4 \<and> (\<forall>i<4. [10, 0, 0, 1] ! i \<le> addr ! i \<and> addr ! i \<le> [10, 0, 3, 255::nat] ! i))"
    for addr
    unfolding c by blast
  have "range_covers ''10-10.0-0.0-3.1-255'' [10, 0, 2, 77]"
    unfolding t by (simp add: all_less_4)
  moreover have "\<not> range_covers ''10-10.0-0.0-3.1-255'' [10, 0, 4, 77]"
    unfolding t by (simp add: all_less_4)
  ultimately show ?thesis using a b c by simp
qed

section \<open>Scanner: the trace of one target\<close>

lemma scan_attempts_report:
  "a < n \<Longrightarrow> nm a = Report hosts \<Longrightarrow>
   scan_attempts n nm t a =
     (NmScan t a # host_rows hosts @ [MarkCompleted t, SaveState], Some (int (length hosts)))"
  by (subst scan_attempts.simps) simp

lemma scan_attempts_last_raise:
  "a < n \<Longrightarrow> nm a = ScanRaises \<Longrightarrow> Suc a = n \<Longrightarrow> scan_attempts n nm t a = ([NmScan t a], Some 0)"
  by (subst scan_attempts.simps) simp

lemma scan_attempts_retry:
  "a < n \<Longrightarrow> nm a = ScanRaises \<Longrightarrow> Suc a \<noteq> n \<Longrightarrow>
   scan_attempts n nm t a =
     (NmScan t a # Sleep 2 # fst (scan_attempts n nm t (Suc a)), snd (scan_attempts n nm t (Suc a)))"
  by (subst scan_attempts.simps) (simp split: prod.splits)

lemma scan_attempts_exhausted: "\<not> a < n \<Longrightarrow> scan_attempts n nm t a = ([], None)"
  by (subst scan_attempts.simps) simp



lemma marked_append: "marked (xs @ ys) = marked xs @ marked ys"
  by (induction xs rule: marked.induct) auto


lemma marked_host_rows: "marked (host_rows hosts) = []"
  by (induction hosts rule: host_rows.induct) auto


lemma marked_retry_trace: "marked (retry_trace t a k) = []"
  by (induction t a k rule: retry_trace.induct) auto

text \<open>The shape of a worker's trace: the attempts that raise, then, if one attempt
  succeeds, its rows, the mark and the save.\<close>

lemma scan_attempts_no_report:
  "n = a + k \<Longrightarrow> first_report nm a k = None \<Longrightarrow>
   scan_attempts n nm t a = (retry_trace t a k, if k = 0 then None else Some 0)"
proof (induction k arbitrary: a)
  case 0
  then show ?case by (simp add: scan_attempts_exhausted)
next
  case (Suc k)
  from Suc.prems have r: "nm a = ScanRaises" and f: "first_report nm (Suc a) k = None"
    by (auto split: scan_outcome.splits)
  show ?case
  proof (cases k)
    case 0
    with Suc.prems r show ?thesis by (simp add: scan_attempts_last_raise)
  next
    case (Suc j)
    from Suc.prems(1) have "n = Suc a + k" by simp
    from Suc.IH [OF this f] have "scan_attempts n nm t (Suc a) = (retry_trace t (Suc a) k, Some 0)"
      using Suc by simp
    moreover have "a < n" "Suc a \<noteq> n" using Suc.prems(1) Suc by auto
    ultimately show ?thesis
      using scan_attempts_retry [of a n nm t] r Suc by simp
  qed
qed

lemma scan_attempts_first_report:
  "n = a + k \<Longrightarrow> first_report nm a k = Some hosts \<Longrightarrow>
   \<exists>pre. scan_attempts n nm t a =
           (pre @ host_rows hosts @ [MarkCompleted t, SaveState], Some (int (length hosts)))
         \<and> written_rows pre = [] \<and> marked pre = [] \<and> SaveState \<notin> set pre"
proof (induction k arbitrary: a)
  case 0
  then show ?case by simp
next
  case (Suc k)
  show ?case
  proof (cases "nm a")
    case (Report hs)
    with Suc.prems have "hs = hosts" by simp
    with Report Suc.prems(1)
    have "scan_attempts n nm t a =
            ([NmScan t a] @ host_rows hosts @ [MarkCompleted t, SaveState], Some (int (length hosts)))"
      by (simp add: scan_attempts_report)
    then show ?thesis by (intro exI [of _ "[NmScan t a]"]) simp
  next
    case ScanRaises
    with Suc.prems have f: "first_report nm (Suc a) k = Some hosts" by simp
    then have k: "k \<noteq> 0" by (cases k) auto
    from Suc.prems(1) have "n = Suc a + k" by simp
    from Suc.IH [OF this f] obtain pre where
      pre: "scan_attempts n nm t (Suc a) =
              (pre @ host_rows hosts @ [MarkCompleted t, SaveState], Some (int (length hosts)))"
        "written_rows pre = []" "marked pre = []" "SaveState \<notin> set pre"
      by blast
    have "a < n" "Suc a \<noteq> n" using Suc.prems(1) k by auto
    with scan_attempts_retry [of a n nm t] ScanRaises pre(1)
    have "scan_attempts n nm t a =
            ((NmScan t a # Sleep 2 # pre) @ host_rows hosts @ [MarkCompleted t, SaveState],
             Some (int (length hosts)))"
      by simp
    with pre(2-) show ?thesis by (intro exI [of _ "NmScan t a # Sleep 2 # pre"]) simp
  qed
qed


lemma marked_scan_attempts:
  "marked (fst (scan_attempts n nm t 0)) =
     (case first_report nm 0 n of None \<Rightarrow> [] | Some hosts \<Rightarrow> [t])"
proof (cases "first_report nm 0 n")
  case None
  from scan_attempts_no_report [OF _ None, of n t] show ?thesis
    by (simp add: None marked_retry_trace)
next
  case (Some hosts)
  from scan_attempts_first_report [OF _ Some, of n t] show ?thesis
    by (auto simp: Some marked_append marked_host_rows)
qed

lemma first_report_all_raise:
  "(\<forall>b. a \<le> b \<and> b < a + k \<longrightarrow> nm b = ScanRaises) \<Longrightarrow> first_report nm a k = None"
  by (induction k arbitrary: a) (auto split: scan_outcome.splits)

text \<open>
  Claim C2. When the scan raises on every one of the \<open>RETRIES\<close> = 3 attempts, the worker
  calls the scan exactly three times, sleeps 2 between consecutive attempts and then
  returns 0, the value of a failed target; nothing is written, nothing is marked, and no
  exception leaves \<open>scan_target\<close>.
\<close>

theorem scan_target_retry_bound:
  assumes "\<forall>a<RETRIES. nm a = ScanRaises"
  shows "scan_target True nm target =
           Inr ([NmScan target 0, Sleep 2, NmScan target 1, Sleep 2, NmScan target 2], Some 0)"
proof -
  from assms have "first_report nm 0 RETRIES = None"
    by (intro first_report_all_raise) simp
  from scan_attempts_no_report [OF _ this, of RETRIES target]
  show ?thesis
    by (simp add: scan_target_def) (simp add: RETRIES_def numeral_3_eq_3)
qed

theorem scan_target_retry_bound_witness:
  "scan_target True (\<lambda>a. ScanRaises) ''10-10.0-0.0-3.1-255'' =
     Inr ([NmScan ''10-10.0-0.0-3.1-255'' 0, Sleep 2, NmScan ''10-10.0-0.0-3.1-255'' 1, Sleep 2,
           NmScan ''10-10.0-0.0-3.1-255'' 2], Some 0)"
  using scan_target_retry_bound [of "\<lambda>a. ScanRaises" "''10-10.0-0.0-3.1-255''"] by simp

section \<open>Scanner: an invariant of the worker pool\<close>







lemma marked_SaveState: "marked [SaveState] = []"
  by simp

lemma marked_single: "t \<in> set (marked [e]) \<longleftrightarrow> e = MarkCompleted t"
  by (cases e) auto





















section \<open>The checker's loop\<close>

lemma check_ollama_host_eq:
  "check_ollama_host http h p 5 = (h, p, is_ollama http (h, p))"
  by (auto simp: check_ollama_host_def is_ollama_def split: http_reply.splits)


lemma submitted_append: "submitted (xs @ ys) = submitted xs @ submitted ys"
  by (induction xs rule: submitted.induct) auto



lemma save_now_ckpt: "save_now ls = SaveCkpt (ckpt_of ls)"
  by (simp add: save_now_def ckpt_of_def)



lemma loop_after_append: "loop_after http (xs @ ys) ls = loop_after http ys (loop_after http xs ls)"
  by (simp add: loop_after_def keys_of_def positives_def)

lemma loop_body_state: "snd (loop_body http total' n hp ls) = loop_after http [hp] ls"
  by (cases hp, cases ls)
     (simp add: loop_body_def check_ollama_host_eq Let_def loop_after_def keys_of_def positives_def)

lemma loop_body_events:
  "fst (loop_body http total' n hp ls) =
     Progress (checked (loop_after http [hp] ls)) total' (found (loop_after http [hp] ls)) #
     (if checked (loop_after http [hp] ls) mod 10 = 0 \<or> checked (loop_after http [hp] ls) = n
      then [save_now (loop_after http [hp] ls)] else [])"
  by (cases hp, cases ls)
     (simp add: loop_body_def check_ollama_host_eq Let_def loop_after_def keys_of_def positives_def)


lemma completion_loop_events_Cons:
  "fst (completion_loop http total' n (hp # cs) ls) =
     fst (loop_body http total' n hp ls) @ fst (completion_loop http total' n cs (loop_after http [hp] ls))"
  by (simp add: case_prod_beta loop_body_state)

lemma completion_loop_submitted: "submitted (fst (completion_loop http total' n cs ls)) = []"
  by (induction cs arbitrary: ls)
     (simp_all add: completion_loop_events_Cons submitted_append loop_body_events save_now_ckpt
        del: completion_loop.simps(2))






section \<open>The three ways through the checker's main\<close>




section \<open>What a trace leaves on the checker's disk\<close>











section \<open>Checker: what the saved checkpoints hold\<close>






section \<open>Checker: the sink after a complete run\<close>




section \<open>Checker: a second run\<close>





section \<open>Checker: how the process ends\<close>



section \<open>Loading a checkpoint\<close>

text \<open>The checker's \<open>load_state\<close> on a corrupt checkpoint: no error, the empty state.\<close>

theorem load_state_corrupt_counterexample:
  "load_state Garbage = Inr empty_state"
  by (simp add: load_state_def load_state_try_def)

text \<open>
  Claim C6, as the code has it. With no checkpoint file both loaders return the empty
  state, and a stored state is returned as it is. On a file that \<^verbatim>\<open>json.load\<close> rejects the
  scanner's loader fails with the decoder's exception, while the checker's \<open>load_state\<close>
  catches it and returns the empty state.
\<close>

theorem load_checkpoint_cases:
  "scanner_load_state NoFile = Inr [] \<and> load_state NoFile = Inr empty_state
   \<and> scanner_load_state (Stored completed) = Inr completed \<and> load_state (Stored st) = Inr st
   \<and> scanner_load_state Garbage = Inl JSONDecodeError
   \<and> load_state Garbage = Inr empty_state"
  by (simp add: scanner_load_state_def load_state_def load_state_try_def)

section \<open>One host of the model lister\<close>

lemma fetch_result_error:
  "fetch_try get (base_url_of host) timeout = Inl e \<Longrightarrow>
   fetch_ollama_info get host timeout =
     Inr [(''host'', PStr host), (''status'', PStr ''error''), (''models'', PList []),
          (''runtime'', PStr ''unknown''), (''error'', PStr e)]"
  by (simp add: fetch_ollama_info_def)

lemma fetch_result_ok:
  "fetch_try get (base_url_of host) timeout = Inr ms \<Longrightarrow>
   fetch_ollama_info get host timeout =
     Inr [(''host'', PStr host), (''status'', PStr ''ok''), (''models'', PList ms),
          (''runtime'', PStr ''unknown''), (''error'', PNone)]"
  by (simp add: fetch_ollama_info_def)

text \<open>
  Claim C9. Whatever the request does, \<open>fetch_ollama_info\<close> returns a dictionary (no
  exception leaves it) with exactly the keys host, status, models, runtime and error, in
  that order; its status is \<^verbatim>\<open>"error"\<close> exactly when its error is not \<^verbatim>\<open>None\<close>, and
  otherwise the status is \<^verbatim>\<open>"ok"\<close> and the error is \<^verbatim>\<open>None\<close>.
\<close>

theorem fetch_ollama_info_total:
  "\<exists>r. fetch_ollama_info get host timeout = Inr r
     \<and> map fst r = [''host'', ''status'', ''models'', ''runtime'', ''error'']
     \<and> ((map_of r ''status'' = Some (PStr ''error'')) = (map_of r ''error'' \<noteq> Some PNone))
     \<and> (map_of r ''status'' = Some (PStr ''error'')
        \<or> (map_of r ''status'' = Some (PStr ''ok'') \<and> map_of r ''error'' = Some PNone))"
proof (cases "fetch_try get (base_url_of host) timeout")
  case (Inl e)
  show ?thesis unfolding fetch_result_error [OF Inl] by simp
next
  case (Inr ms)
  show ?thesis unfolding fetch_result_ok [OF Inr] by simp
qed


theorem fetch_ollama_info_total_witness:
  "fetch_ollama_info (\<lambda>u t. GetRaises ''timed out'') ''10.0.0.5:11434'' 5 =
     Inr [(''host'', PStr ''10.0.0.5:11434''), (''status'', PStr ''error''), (''models'', PList []),
          (''runtime'', PStr ''unknown''), (''error'', PStr ''timed out'')]
   \<and> (\<exists>r. fetch_ollama_info (\<lambda>u t. GetRaises ''timed out'') ''10.0.0.5:11434'' 5 = Inr r
          \<and> map fst r = [''host'', ''status'', ''models'', ''runtime'', ''error'']
          \<and> (map_of r ''status'' = Some (PStr ''error'')) = (map_of r ''error'' \<noteq> Some PNone))"
proof -
  have v: "fetch_ollama_info (\<lambda>u t. GetRaises ''timed out'') ''10.0.0.5:11434'' 5 =
     Inr [(''host'', PStr ''10.0.0.5:11434''), (''status'', PStr ''error''), (''models'', PList []),
          (''runtime'', PStr ''unknown''), (''error'', PStr ''timed out'')]"
    by (simp add: fetch_ollama_info_def fetch_try_def)
  from fetch_ollama_info_total [of "\<lambda>u t. GetRaises ''timed out''" "''10.0.0.5:11434''" 5]
  obtain r where r: "fetch_ollama_info (\<lambda>u t. GetRaises ''timed out'') ''10.0.0.5:11434'' 5 = Inr r"
    "map fst r = [''host'', ''status'', ''models'', ''runtime'', ''error'']"
    "(map_of r ''status'' = Some (PStr ''error'')) = (map_of r ''error'' \<noteq> Some PNone)"
    by auto
  from r have "\<exists>r. fetch_ollama_info (\<lambda>u t. GetRaises ''timed out'') ''10.0.0.5:11434'' 5 = Inr r
          \<and> map fst r = [''host'', ''status'', ''models'', ''runtime'', ''error'']
          \<and> (map_of r ''status'' = Some (PStr ''error'')) = (map_of r ''error'' \<noteq> Some PNone)"
    by (intro exI [of _ r]) simp
  with v show ?thesis by (rule conjI)
qed






lemma digit_chars:
  "digit_char 0 = CHR ''0''" "digit_char 1 = CHR ''1''" "digit_char 2 = CHR ''2''"
  "digit_char 3 = CHR ''3''" "digit_char 4 = CHR ''4''" "digit_char 5 = CHR ''5''"
  "digit_char 6 = CHR ''6''" "digit_char 7 = CHR ''7''" "digit_char 8 = CHR ''8''"
  "digit_char 9 = CHR ''9''" "digit_char (Suc 0) = CHR ''1''"
  by code_simp+

lemma str_nat_digit: "n < 10 \<Longrightarrow> str_nat n = [digit_char n]"
  by (subst str_nat.simps) simp

lemma str_nat_step: "\<not> n < 10 \<Longrightarrow> str_nat n = str_nat (n div 10) @ [digit_char (n mod 10)]"
  by (subst str_nat.simps) simp

lemma str_nat_port: "str_nat 11434 = ''11434''"
  by (simp add: str_nat_step str_nat_digit digit_chars)

lemma py_str_port: "py_str 11434 = ''11434''"
  by (simp add: py_str_def str_nat_port)

lemma ports_list_eq: "ports_list = [11434]"
  by (simp add: ports_list_def PORTS_def py_int_def py_strip_def is_space_def py_int_unsigned_def
      is_digit_def digits_value_def digit_val_def)

lemma e1: "job_trace example_report [''10-10.0-0.0-0.5-6''] 0 =
   [NmScan ''10-10.0-0.0-0.5-6'' 0, CsvRow ''10.0.0.5'' ''11434'', MarkCompleted ''10-10.0-0.0-0.5-6'', SaveState]"
  by (simp add: job_trace_def example_report_def scan_attempts_report RETRIES_def open_ports_def port_open_def
      ports_list_eq py_str_port)

lemma e2: "scanner_start [''10-10.0-0.0-0.5-6''] None NoFile =
    Inr ([''10-10.0-0.0-0.5-6''],
         \<lparr>world = \<lparr>csv_file = Some [[''Host'', ''Open Ports'']], completed_targets = [], state_file = NoFile\<rparr>,
          pcs = [0]\<rparr>)"
  by (simp add: scanner_start_def scanner_load_state_def dispatch_def csv_init_def)












section \<open>Scanner: a second run\<close>



















section \<open>Which outcomes reach the sink\<close>











section \<open>How the scripts end\<close>




end
